theory Spec2Isabelle
  imports Main
begin

section \<open>JavaScript values and string operations used by the token module\<close>

text \<open>
  A thrown JavaScript value is either an instance of \<^verbatim>\<open>Error\<close> (with its \<^verbatim>\<open>name\<close> and
  \<^verbatim>\<open>message\<close>; the library's \<^verbatim>\<open>TokenExpiredError\<close>, \<^verbatim>\<open>JsonWebTokenError\<close> and
  \<^verbatim>\<open>NotBeforeError\<close> are such instances) or any other value. A function that may throw,
  and a promise that may reject, return \<open>js_error + 'a\<close>, with \<open>Inl\<close> for the throw.
\<close>

datatype js_error = Error string string | NonError

text \<open>\<^verbatim>\<open>s.startsWith(p)\<close>, \<^verbatim>\<open>s.includes(sub)\<close>, \<^verbatim>\<open>s.split(d)\<close> and the test
  \<^verbatim>\<open>s.trim() !== ''\<close> of JavaScript strings. \<^verbatim>\<open>s.substring(7)\<close> is \<open>drop 7 s\<close> and
  \<^verbatim>\<open>s.length\<close> is \<open>length s\<close>.\<close>

fun startsWith :: "string \<Rightarrow> string \<Rightarrow> bool" where
  "startsWith s [] = True"
| "startsWith [] (p # ps) = False"
| "startsWith (c # cs) (p # ps) = (c = p \<and> startsWith cs ps)"

fun includes_text :: "string \<Rightarrow> string \<Rightarrow> bool" where
  "includes_text [] sub = (sub = [])"
| "includes_text (c # cs) sub = (startsWith (c # cs) sub \<or> includes_text cs sub)"

fun split_on :: "char \<Rightarrow> string \<Rightarrow> string list" where
  "split_on d [] = [[]]"
| "split_on d (c # cs) =
     (if c = d then [] # split_on d cs
      else (case split_on d cs of [] \<Rightarrow> [[c]] | w # ws \<Rightarrow> (c # w) # ws))"

definition is_space :: "char \<Rightarrow> bool" where
  "is_space c = (c \<in> set [CHR '' '', CHR 0x09, CHR 0x0A, CHR 0x0B, CHR 0x0C, CHR 0x0D])"

definition blank :: "string \<Rightarrow> bool" where
  "blank s = list_all is_space s"

section \<open>The signing secret: module constants of the token module\<close>

text \<open>
  \<^verbatim>\<open>process.env\<close> as far as the module reads it. The module's top-level constants are
  computed once, when the module is loaded; \<open>load_module\<close> is that computation, and
  \<open>Inl\<close> is the exception that aborts the load.
\<close>

record environment =
  env_JWT_SECRET :: "string option"
  env_NODE_ENV :: "string option"

record jwt_module =
  JWT_SECRET :: string
  VALIDATED_JWT_SECRET :: string

definition fallback_secret :: string where
  "fallback_secret = ''super-secret-key-for-workshop-demo-only''"

definition validateJWTSecret :: "environment \<Rightarrow> js_error + string" where
  "validateJWTSecret env =
     (case env_JWT_SECRET env of
        None \<Rightarrow> Inl (Error ''Error'' ''JWT_SECRET environment variable is required for security'')
      | Some secret \<Rightarrow>
          if secret = [] then
            Inl (Error ''Error'' ''JWT_SECRET environment variable is required for security'')
          else if length secret < 32 then
            Inl (Error ''Error'' ''JWT_SECRET must be at least 32 characters long for security'')
          else Inr secret)"

definition load_module :: "environment \<Rightarrow> js_error + jwt_module" where
  "load_module env =
     (let secret = (case env_JWT_SECRET env of
                      None \<Rightarrow> fallback_secret
                    | Some s \<Rightarrow> if s = [] then fallback_secret else s)
      in if env_NODE_ENV env = Some ''test''
         then Inr \<lparr>JWT_SECRET = secret, VALIDATED_JWT_SECRET = secret\<rparr>
         else (case validateJWTSecret env of
                 Inl e \<Rightarrow> Inl e
               | Inr validated \<Rightarrow> Inr \<lparr>JWT_SECRET = secret, VALIDATED_JWT_SECRET = validated\<rparr>))"

definition secret_missing_or_short :: "environment \<Rightarrow> bool" where
  "secret_missing_or_short env =
     (case env_JWT_SECRET env of None \<Rightarrow> True | Some s \<Rightarrow> length s < 32)"

section \<open>Claims, token header and the options of the jsonwebtoken library\<close>

text \<open>
  \<^verbatim>\<open>JWTPayload\<close> with the claims the module's calls add: \<^verbatim>\<open>type\<close> (the refresh tag),
  \<^verbatim>\<open>iss\<close> and \<^verbatim>\<open>aud\<close> (from the \<^verbatim>\<open>issuer\<close> and \<^verbatim>\<open>audience\<close> options). A field that is
  \<^verbatim>\<open>undefined\<close> is \<open>None\<close>. Timestamps are seconds since the epoch. The interface has no
  not-before claim and no signer of the module sets one.
\<close>

record jwt_payload =
  userId :: "string option"
  email :: "string option"
  role :: "string option"
  type :: "string option"
  iat :: "int option"
  exp :: "int option"
  iss :: "string option"
  aud :: "string option"

text \<open>\<^verbatim>\<open>Omit<JWTPayload, 'iat' | 'exp'>\<close>, the argument of \<^verbatim>\<open>generateTokenSecure\<close>.\<close>

record claims_input =
  in_userId :: string
  in_email :: string
  in_role :: "string option"

record jose_header =
  alg :: "string option"
  header_typ :: "string option"

text \<open>The time spans the module passes as \<^verbatim>\<open>expiresIn\<close>: \<^verbatim>\<open>"15m"\<close>, \<^verbatim>\<open>"24h"\<close>, \<^verbatim>\<open>"7d"\<close>.\<close>

datatype span = Seconds int | Minutes int | Hours int | Days int

fun span_seconds :: "span \<Rightarrow> int" where
  "span_seconds (Seconds n) = n"
| "span_seconds (Minutes n) = n * 60"
| "span_seconds (Hours n) = n * 60 * 60"
| "span_seconds (Days n) = n * 24 * 60 * 60"

text \<open>The options object of \<^verbatim>\<open>jwt.sign\<close> and \<^verbatim>\<open>jwt.verify\<close>; an option not given is \<open>None\<close>.\<close>

record jwt_options =
  expiresIn :: "span option"
  algorithm :: "string option"
  algorithms :: "string list option"
  issuer :: "string option"
  audience :: "string option"
  ignoreExpiration :: "bool option"
  clockTolerance :: "int option"

definition no_options :: jwt_options where
  "no_options = \<lparr>expiresIn = None, algorithm = None, algorithms = None, issuer = None,
     audience = None, ignoreExpiration = None, clockTolerance = None\<rparr>"

section \<open>The jsonwebtoken library\<close>

text \<open>
  Modelled from the spec: the token library \<^verbatim>\<open>jsonwebtoken\<close>, whose functions \<^verbatim>\<open>sign\<close>
  and \<^verbatim>\<open>verify\<close> the module calls and whose code is not in the repository. The spec gives
  the token's three segments (section 6) and the checks of signing and verification
  (section 4.1); the order of the checks, the names and messages of the errors and the
  defaults of the options are the library's (version 9), from its documentation. What the
  library takes from the platform is a parameter of the model: the encoding of a header
  and of a claims object into a token segment (base64url of JSON) with its decoding, and
  the keyed hash that gives the signature segment.
\<close>

record wire =
  enc_header :: "jose_header \<Rightarrow> string"
  dec_header :: "string \<Rightarrow> jose_header option"
  enc_payload :: "jwt_payload \<Rightarrow> string"
  dec_payload :: "string \<Rightarrow> jwt_payload option"
  hmac :: "string \<Rightarrow> string \<Rightarrow> string \<Rightarrow> string"

definition HS_ALGS :: "string list" where
  "HS_ALGS = [''HS256'', ''HS384'', ''HS512'']"

text \<open>Modelled from the spec: the claims that \<^verbatim>\<open>jwt.sign\<close> of the library signs: the
  payload, \<^verbatim>\<open>iat\<close> (the payload's own when it has one, else the clock), \<^verbatim>\<open>exp\<close> from
  \<^verbatim>\<open>expiresIn\<close>, \<^verbatim>\<open>aud\<close> and \<^verbatim>\<open>iss\<close> from the options. An option whose claim the
  payload already has is refused.\<close>

definition sign_claims :: "jwt_payload \<Rightarrow> jwt_options \<Rightarrow> int \<Rightarrow> js_error + jwt_payload" where
  \<open>sign_claims payload options now =
     (if exp payload \<noteq> None \<and> expiresIn options \<noteq> None then
        Inl (Error ''Error''
               ''Bad "options.expiresIn" option the payload already has an "exp" property.'')
      else
        let timestamp = (case iat payload of None \<Rightarrow> now | Some t \<Rightarrow> if t = 0 then now else t);
            p1 = payload\<lparr>iat := Some timestamp\<rparr>;
            p2 = (case expiresIn options of
                    None \<Rightarrow> p1
                  | Some d \<Rightarrow> p1\<lparr>exp := Some (timestamp + span_seconds d)\<rparr>)
        in if audience options \<noteq> None \<and> aud p2 \<noteq> None then
             Inl (Error ''Error''
                    ''Bad "options.audience" option. The payload already has an "aud" property.'')
           else
             let p3 = (case audience options of None \<Rightarrow> p2 | Some a \<Rightarrow> p2\<lparr>aud := Some a\<rparr>)
             in if issuer options \<noteq> None \<and> iss p3 \<noteq> None then
                  Inl (Error ''Error''
                         ''Bad "options.issuer" option. The payload already has an "iss" property.'')
                else
                  Inr (case issuer options of None \<Rightarrow> p3 | Some i \<Rightarrow> p3\<lparr>iss := Some i\<rparr>))\<close>

text \<open>Modelled from the spec: the library's compact serialisation, with header, claims and
  signature segments joined by dots; the signature is the keyed hash of the first two
  segments.\<close>

definition jws_sign :: "wire \<Rightarrow> string \<Rightarrow> jwt_payload \<Rightarrow> string \<Rightarrow> string" where
  "jws_sign w a claims secret =
     (let input = enc_header w \<lparr>alg = Some a, header_typ = Some ''JWT''\<rparr> @ ''.'' @ enc_payload w claims
      in input @ ''.'' @ hmac w a secret input)"

text \<open>Modelled from the spec: \<^verbatim>\<open>jwt.sign\<close> of the library with a string secret, at clock
  \<open>now\<close>. The header names \<^verbatim>\<open>options.algorithm\<close>, by default HS256.\<close>

definition jwt_sign :: "wire \<Rightarrow> jwt_payload \<Rightarrow> string \<Rightarrow> jwt_options \<Rightarrow> int \<Rightarrow> js_error + string" where
  "jwt_sign w payload secret options now =
     (if secret = [] then Inl (Error ''Error'' ''secretOrPrivateKey must have a value'')
      else (case sign_claims payload options now of
              Inl e \<Rightarrow> Inl e
            | Inr claims \<Rightarrow>
                Inr (jws_sign w (case algorithm options of None \<Rightarrow> ''HS256'' | Some a \<Rightarrow> a)
                       claims secret)))"

text \<open>
  Modelled from the spec: \<^verbatim>\<open>jwt.verify\<close> of the library with a string secret, at clock
  \<open>now\<close>. In the library's order: the token is given; it has three segments; header and
  claims decode; a signature is present; the header's algorithm is one of
  \<^verbatim>\<open>options.algorithms\<close> (for a secret, by default the three HMAC algorithms); the
  signature is the keyed hash of the first two segments; the token has not expired
  (\<^verbatim>\<open>clockTimestamp >= exp + clockTolerance\<close> is expired); audience; issuer. A claims
  segment that is not JSON makes the library pass on a \<^verbatim>\<open>SyntaxError\<close>.
  The library's not-before check has nothing to test, the claims having no such field, so
  no \<^verbatim>\<open>NotBeforeError\<close> arises here.
\<close>

definition jwt_verify :: "wire \<Rightarrow> string \<Rightarrow> string \<Rightarrow> jwt_options \<Rightarrow> int \<Rightarrow> js_error + jwt_payload" where
  \<open>jwt_verify w jwtString secret options now =
     (if jwtString = [] then Inl (Error ''JsonWebTokenError'' ''jwt must be provided'')
      else (case split_on CHR ''.'' jwtString of
        [h, p, s] \<Rightarrow>
          (case dec_header w h of
             None \<Rightarrow> Inl (Error ''JsonWebTokenError'' ''invalid token'')
           | Some header \<Rightarrow>
          (case dec_payload w p of
             None \<Rightarrow> Inl (Error ''SyntaxError'' ''Unexpected token in JSON'')
           | Some payload \<Rightarrow>
               if blank s \<and> secret \<noteq> [] then
                 Inl (Error ''JsonWebTokenError'' ''jwt signature is required'')
               else if \<not> blank s \<and> secret = [] then
                 Inl (Error ''JsonWebTokenError'' ''secret or public key must be provided'')
               else if blank s \<and> algorithms options = None then
                 Inl (Error ''JsonWebTokenError''
                        ''please specify "none" in "algorithms" to verify unsigned tokens'')
               else if secret = [] then
                 Inl (Error ''JsonWebTokenError'' ''secretOrPublicKey is not valid key material'')
               else
                 (case alg header of
                    None \<Rightarrow> Inl (Error ''JsonWebTokenError'' ''invalid algorithm'')
                  | Some a \<Rightarrow>
                      if a \<notin> set (case algorithms options of None \<Rightarrow> HS_ALGS | Some algs \<Rightarrow> algs) then
                        Inl (Error ''JsonWebTokenError'' ''invalid algorithm'')
                      else if s \<noteq> hmac w a secret (h @ ''.'' @ p) then
                        Inl (Error ''JsonWebTokenError'' ''invalid signature'')
                      else if exp payload \<noteq> None \<and> ignoreExpiration options \<noteq> Some True \<and>
                              the (exp payload) +
                                (case clockTolerance options of None \<Rightarrow> 0 | Some t \<Rightarrow> t) \<le> now then
                        Inl (Error ''TokenExpiredError'' ''jwt expired'')
                      else if audience options \<noteq> None \<and> aud payload \<noteq> audience options then
                        Inl (Error ''JsonWebTokenError''
                               (''jwt audience invalid. expected: '' @ the (audience options)))
                      else if issuer options \<noteq> None \<and> iss payload \<noteq> issuer options then
                        Inl (Error ''JsonWebTokenError''
                               (''jwt issuer invalid. expected: '' @ the (issuer options)))
                      else Inr payload)))
      | _ \<Rightarrow> Inl (Error ''JsonWebTokenError'' ''jwt malformed'')))\<close>

section \<open>The Token Service: signers and verifiers of the module\<close>

text \<open>Every function takes the wire parameter of the library, the loaded module (for the
  secret it reads) and the clock in seconds (\<^verbatim>\<open>Math.floor(Date.now() / 1000)\<close>).\<close>

definition legacy_sign_options :: jwt_options where
  "legacy_sign_options = no_options\<lparr>expiresIn := Some (Hours 24)\<rparr>"

definition generateToken :: "wire \<Rightarrow> jwt_module \<Rightarrow> int \<Rightarrow> jwt_payload \<Rightarrow> js_error + string" where
  "generateToken w m now payload =
     jwt_sign w payload (JWT_SECRET m) legacy_sign_options now"

definition secure_sign_options :: jwt_options where
  "secure_sign_options = no_options\<lparr>expiresIn := Some (Minutes 15), algorithm := Some ''HS256'',
     issuer := Some ''your-app-name'', audience := Some ''your-app-users''\<rparr>"

definition refresh_sign_options :: jwt_options where
  "refresh_sign_options = no_options\<lparr>expiresIn := Some (Days 7), algorithm := Some ''HS256'',
     issuer := Some ''your-app-name'', audience := Some ''your-app-users''\<rparr>"

definition no_claims :: jwt_payload where
  "no_claims = \<lparr>userId = None, email = None, role = None, type = None, iat = None,
     exp = None, iss = None, aud = None\<rparr>"

definition secure_payload :: "claims_input \<Rightarrow> jwt_payload" where
  "secure_payload payload =
     no_claims\<lparr>userId := Some (in_userId payload), email := Some (in_email payload),
       role := in_role payload\<rparr>"

definition generateTokenSecure :: "wire \<Rightarrow> jwt_module \<Rightarrow> int \<Rightarrow> claims_input \<Rightarrow> js_error + string" where
  "generateTokenSecure w m now payload =
     (if in_userId payload = [] \<or> in_email payload = [] then
        Inl (Error ''Error''
               ''Token generation error: Invalid payload: userId and email are required'')
      else (case jwt_sign w (secure_payload payload) (VALIDATED_JWT_SECRET m)
                   secure_sign_options now of
              Inl (Error n msg) \<Rightarrow> Inl (Error ''Error'' (''JWT generation failed: '' @ msg))
            | Inl NonError \<Rightarrow> Inl (Error ''Error'' ''JWT generation failed: undefined'')
            | Inr token \<Rightarrow> Inr token))"

definition refresh_payload :: "string \<Rightarrow> jwt_payload" where
  "refresh_payload uid = no_claims\<lparr>userId := Some uid, type := Some ''refresh''\<rparr>"

definition generateRefreshToken :: "wire \<Rightarrow> jwt_module \<Rightarrow> int \<Rightarrow> string \<Rightarrow> js_error + string" where
  "generateRefreshToken w m now uid =
     (if uid = [] then
        Inl (Error ''Error''
               ''Refresh token generation error: Invalid payload: userId is required for refresh token'')
      else (case jwt_sign w (refresh_payload uid) (VALIDATED_JWT_SECRET m)
                   refresh_sign_options now of
              Inl (Error n msg) \<Rightarrow> Inl (Error ''Error'' (''Refresh token generation failed: '' @ msg))
            | Inl NonError \<Rightarrow> Inl (Error ''Error'' ''Refresh token generation failed: undefined'')
            | Inr token \<Rightarrow> Inr token))"

definition verifyToken :: "wire \<Rightarrow> jwt_module \<Rightarrow> int \<Rightarrow> string \<Rightarrow> js_error + jwt_payload" where
  "verifyToken w m now token = jwt_verify w token (JWT_SECRET m) no_options now"

definition secure_verify_options :: jwt_options where
  "secure_verify_options = no_options\<lparr>algorithms := Some [''HS256''],
     issuer := Some ''your-app-name'', audience := Some ''your-app-users'',
     ignoreExpiration := Some False, clockTolerance := Some 30\<rparr>"

text \<open>JavaScript's \<^verbatim>\<open>!x\<close> on an optional string: \<^verbatim>\<open>undefined\<close> and \<^verbatim>\<open>""\<close> are falsy.\<close>

definition falsy :: "string option \<Rightarrow> bool" where
  "falsy x = (case x of None \<Rightarrow> True | Some s \<Rightarrow> s = [])"

definition verifyTokenSecure :: "wire \<Rightarrow> jwt_module \<Rightarrow> int \<Rightarrow> string \<Rightarrow> js_error + jwt_payload" where
  "verifyTokenSecure w m now token =
     (if token = [] then
        Inl (Error ''Error''
               ''Token verification error: Invalid token: token must be a non-empty string'')
      else if length token < 10 then
        Inl (Error ''Error'' ''Token verification error: Invalid token: token too short'')
      else (case jwt_verify w token (VALIDATED_JWT_SECRET m) secure_verify_options now of
              Inl (Error n msg) \<Rightarrow>
                if n = ''TokenExpiredError'' then Inl (Error ''Error'' ''Token has expired'')
                else if n = ''JsonWebTokenError'' then Inl (Error ''Error'' ''Invalid token format'')
                else if n = ''NotBeforeError'' then Inl (Error ''Error'' ''Token not active yet'')
                else Inl (Error ''Error'' (''Token verification failed: '' @ msg))
            | Inl NonError \<Rightarrow> Inl (Error ''Error'' ''Token verification failed: undefined'')
            | Inr payload \<Rightarrow>
                if falsy (userId payload) \<or> falsy (email payload) then
                  Inl (Error ''Error'' ''Invalid token payload: missing required fields'')
                else Inr payload))"

text \<open>The login route signs \<^verbatim>\<open>{ userId: user.user_id, role: userDetails.role }\<close> with the
  legacy signer.\<close>

definition login_tokenPayload :: "string \<Rightarrow> string option \<Rightarrow> jwt_payload" where
  "login_tokenPayload user_id user_role = no_claims\<lparr>userId := Some user_id, role := user_role\<rparr>"

definition login_token :: "wire \<Rightarrow> jwt_module \<Rightarrow> int \<Rightarrow> string \<Rightarrow> string option \<Rightarrow> js_error + string" where
  "login_token w m now user_id user_role = generateToken w m now (login_tokenPayload user_id user_role)"

section \<open>Auth Interceptor and Role Gate\<close>

text \<open>
  A request as far as the interceptor reads it: the value of
  \<^verbatim>\<open>request.headers.get("authorization")\<close> (\<open>None\<close> for \<^verbatim>\<open>null\<close>), and the rest of the
  request, which the interceptor passes on. \<^verbatim>\<open>Object.assign(request, { user })\<close> extends
  the request by the field \<^verbatim>\<open>user\<close>. A response has its status, its headers and its
  body; \<open>JSON_stringify\<close> is the body made from an object by \<^verbatim>\<open>JSON.stringify\<close>, with
  its keys in order.
\<close>

record request =
  url :: string
  authorization :: "string option"

record authenticated_request = request +
  user :: jwt_payload

datatype body = JSON_stringify "(string \<times> string) list" | Body string

record response =
  status :: nat
  headers :: "(string \<times> string) list"
  body :: body

type_synonym AuthenticatedHandler = "authenticated_request \<Rightarrow> js_error + response"

text \<open>A run of the interceptor: the tokens it handed to \<^verbatim>\<open>verifyTokenSecure\<close>, and what it
  returned to its caller (\<open>Inl\<close> would be an exception leaving the interceptor).\<close>

record run =
  verify_calls :: "string list"
  outcome :: "js_error + response"

text \<open>The six responses with status 401 that \<^verbatim>\<open>authMiddleware\<close> builds differ in the two
  strings of the body only.\<close>

definition response_401 :: "string \<Rightarrow> string \<Rightarrow> response" where
  "response_401 err msg =
     \<lparr>status = 401,
      headers = [(''Content-Type'', ''application/json''), (''WWW-Authenticate'', ''Bearer'')],
      body = JSON_stringify [(''error'', err), (''message'', msg)]\<rparr>"

text \<open>The \<^verbatim>\<open>catch\<close> block of the interceptor.\<close>

definition on_catch :: "js_error \<Rightarrow> response" where
  "on_catch error =
     (case error of
        Error n msg \<Rightarrow>
          if includes_text msg ''expired'' then
            response_401 ''Token expired'' ''Please refresh your token and try again''
          else if includes_text msg ''Invalid token'' then
            response_401 ''Invalid token'' ''Token verification failed''
          else response_401 ''Authentication failed'' ''Unable to authenticate request''
      | NonError \<Rightarrow> response_401 ''Authentication failed'' ''Unable to authenticate request'')"

definition authMiddleware ::
    "wire \<Rightarrow> jwt_module \<Rightarrow> int \<Rightarrow> AuthenticatedHandler \<Rightarrow> request \<Rightarrow> run" where
  "authMiddleware w m now handler request =
     (case authorization request of
        None \<Rightarrow>
          \<lparr>verify_calls = [],
           outcome = Inr (response_401 ''Authentication required'' ''Authorization header is missing'')\<rparr>
      | Some authHeader \<Rightarrow>
          if authHeader = [] then
            \<lparr>verify_calls = [],
             outcome = Inr (response_401 ''Authentication required'' ''Authorization header is missing'')\<rparr>
          else if \<not> startsWith authHeader ''Bearer '' then
            \<lparr>verify_calls = [],
             outcome = Inr (response_401 ''Invalid authentication format''
                              (''Authorization header must start with 'Bearer '' @ [CHR 0x27]))\<rparr>
          else
            let token = drop 7 authHeader
            in if token = [] \<or> length token < 10 then
                 \<lparr>verify_calls = [],
                  outcome = Inr (response_401 ''Invalid token'' ''Token is malformed or too short'')\<rparr>
               else
                 \<lparr>verify_calls = [token],
                  outcome =
                    (case verifyTokenSecure w m now token of
                       Inl error \<Rightarrow> Inr (on_catch error)
                     | Inr decoded \<Rightarrow>
                         (case handler (request.extend request (authenticated_request.fields decoded)) of
                            Inl error \<Rightarrow> Inr (on_catch error)
                          | Inr resp \<Rightarrow> Inr resp))\<rparr>)"

fun join :: "string \<Rightarrow> string list \<Rightarrow> string" where
  "join sep [] = []"
| "join sep [x] = x"
| "join sep (x # y # ys) = x @ sep @ join sep (y # ys)"

definition response_403 :: "string list \<Rightarrow> response" where
  "response_403 roles =
     \<lparr>status = 403,
      headers = [(''Content-Type'', ''application/json'')],
      body = JSON_stringify [(''error'', ''Insufficient permissions''),
               (''message'', ''Access denied. Required roles: '' @ join '', '' roles)]\<rparr>"

definition roleMiddleware :: "string list \<Rightarrow> AuthenticatedHandler \<Rightarrow> AuthenticatedHandler" where
  "roleMiddleware roles handler request =
     (if falsy (role (user request)) \<or> the (role (user request)) \<notin> set roles
      then Inr (response_403 roles)
      else handler request)"

definition requireRole ::
    "wire \<Rightarrow> jwt_module \<Rightarrow> int \<Rightarrow> string list \<Rightarrow> AuthenticatedHandler \<Rightarrow> request \<Rightarrow> run" where
  "requireRole w m now roles handler request =
     authMiddleware w m now (roleMiddleware roles handler) request"

section \<open>Predicates of the properties, and a fixture\<close>

text \<open>
  \<open>wire_carries\<close>: the platform encodes this header and these claims into dot-free
  segments that decode to what was encoded, the signature segment is dot-free and not
  blank, and the token has at least ten characters. Base64url of JSON meets this for
  every header and claims object; the model does not look inside the encoding.
\<close>

definition wire_carries :: "wire \<Rightarrow> string \<Rightarrow> jwt_payload \<Rightarrow> string \<Rightarrow> bool" where
  "wire_carries w a claims secret =
     (let header = \<lparr>alg = Some a, header_typ = Some ''JWT''\<rparr>;
          h = enc_header w header;
          p = enc_payload w claims;
          s = hmac w a secret (h @ ''.'' @ p)
      in CHR ''.'' \<notin> set h \<and> CHR ''.'' \<notin> set p \<and> CHR ''.'' \<notin> set s \<and> \<not> blank s \<and>
         dec_header w h = Some header \<and> dec_payload w p = Some claims \<and>
         10 \<le> length (h @ ''.'' @ p @ ''.'' @ s))"

text \<open>\<open>validly_signed\<close>: the token has three segments, its header names one of the
  algorithms \<open>algs\<close>, its claims segment decodes to \<open>claims\<close>, and its signature segment
  is the keyed hash of the first two segments under the secret.\<close>

definition validly_signed :: "wire \<Rightarrow> string \<Rightarrow> string list \<Rightarrow> string \<Rightarrow> jwt_payload \<Rightarrow> bool" where
  "validly_signed w secret algs token claims =
     (case split_on CHR ''.'' token of
        [h, p, s] \<Rightarrow>
          (case dec_header w h of
             None \<Rightarrow> False
           | Some header \<Rightarrow>
               (case alg header of
                  None \<Rightarrow> False
                | Some a \<Rightarrow> a \<in> set algs \<and> \<not> blank s \<and> s = hmac w a secret (h @ ''.'' @ p) \<and>
                            dec_payload w p = Some claims))
      | _ \<Rightarrow> False)"

text \<open>\<open>declares\<close>: the token has three segments and its header segment decodes to a
  header with this \<^verbatim>\<open>alg\<close>; \<open>carries\<close>: its claims segment decodes to these claims.\<close>

definition declares :: "wire \<Rightarrow> string \<Rightarrow> string option \<Rightarrow> bool" where
  "declares w token a =
     (case split_on CHR ''.'' token of
        [h, p, s] \<Rightarrow> (case dec_header w h of None \<Rightarrow> False | Some header \<Rightarrow> alg header = a)
      | _ \<Rightarrow> False)"

definition carries :: "wire \<Rightarrow> string \<Rightarrow> jwt_payload \<Rightarrow> bool" where
  "carries w token claims =
     (case split_on CHR ''.'' token of
        [h, p, s] \<Rightarrow> dec_payload w p = Some claims
      | _ \<Rightarrow> False)"

text \<open>The failure envelope \<^verbatim>\<open>{ "error": ..., "message": ... }\<close> and the challenge header.\<close>

definition failure_envelope :: "response \<Rightarrow> bool" where
  "failure_envelope resp =
     (case body resp of
        JSON_stringify [(k1, v1), (k2, v2)] \<Rightarrow> k1 = ''error'' \<and> k2 = ''message''
      | _ \<Rightarrow> False)"

definition challenge :: "response \<Rightarrow> string option" where
  "challenge resp = map_of (headers resp) ''WWW-Authenticate''"

text \<open>
  A fixture for concrete runs: a production environment with a secret of 32 characters, and
  a wire whose segments are readable: a header is \<open>h-\<close> and its algorithm, the claims of
  the fixture are named, and the keyed hash joins algorithm, key and input with the dots
  of the input replaced.
\<close>

definition fixture_env :: environment where
  "fixture_env = \<lparr>env_JWT_SECRET = Some ''0123456789abcdef0123456789abcdef'',
     env_NODE_ENV = Some ''production''\<rparr>"

definition fixture_module :: jwt_module where
  "fixture_module = \<lparr>JWT_SECRET = ''0123456789abcdef0123456789abcdef'',
     VALIDATED_JWT_SECRET = ''0123456789abcdef0123456789abcdef''\<rparr>"

definition fixture_claims :: "string option \<Rightarrow> string option \<Rightarrow> jwt_payload" where
  "fixture_claims e r = \<lparr>userId = Some ''42'', email = e, role = r, type = None,
     iat = Some 1000, exp = Some 1900, iss = Some ''your-app-name'',
     aud = Some ''your-app-users''\<rparr>"

definition fixture_login_claims :: jwt_payload where
  "fixture_login_claims = \<lparr>userId = Some ''42'', email = None, role = Some ''user'',
     type = None, iat = Some 1000, exp = Some 87400, iss = None, aud = None\<rparr>"

definition fixture_input :: claims_input where
  "fixture_input = \<lparr>in_userId = ''42'', in_email = ''a@b.c'', in_role = Some ''user''\<rparr>"

definition fixture_wire :: wire where
  "fixture_wire =
     \<lparr>enc_header = (\<lambda>header. case alg header of None \<Rightarrow> ''h'' | Some a \<Rightarrow> ''h-'' @ a),
      dec_header = (\<lambda>h. if startsWith h ''h-''
                         then Some \<lparr>alg = Some (drop 2 h), header_typ = Some ''JWT''\<rparr>
                         else None),
      enc_payload = (\<lambda>claims.
         if claims = fixture_claims (Some ''a@b.c'') (Some ''user'') then ''claims-user''
         else if claims = fixture_claims (Some ''a@b.c'') (Some []) then ''claims-empty-role''
         else if claims = fixture_claims None (Some ''user'') then ''claims-no-email''
         else if claims = fixture_login_claims then ''claims-login''
         else ''claims''),
      dec_payload = (\<lambda>p.
         if p = ''claims-user'' then Some (fixture_claims (Some ''a@b.c'') (Some ''user''))
         else if p = ''claims-empty-role'' then Some (fixture_claims (Some ''a@b.c'') (Some []))
         else if p = ''claims-no-email'' then Some (fixture_claims None (Some ''user''))
         else if p = ''claims-login'' then Some fixture_login_claims
         else None),
      hmac = (\<lambda>a key input.
         a @ ''-'' @ key @ ''-'' @ map (\<lambda>c. if c = CHR ''.'' then CHR ''-'' else c) input)\<rparr>"

definition fixture_token :: "string \<Rightarrow> string \<Rightarrow> string" where
  "fixture_token a p =
     ''h-'' @ a @ ''.'' @ p @ ''.'' @ a @ ''-0123456789abcdef0123456789abcdef-h-'' @ a @ ''-'' @ p"

definition header_request :: "string option \<Rightarrow> request" where
  "header_request h = \<lparr>url = ''/api/profile'', authorization = h\<rparr>"

definition fixture_request :: "string \<Rightarrow> request" where
  "fixture_request token = header_request (Some (''Bearer '' @ token))"

text \<open>Two handlers of the fixture: one answers with the caller's identity, one throws.\<close>

definition profile_handler :: AuthenticatedHandler where
  "profile_handler request =
     Inr \<lparr>status = 200, headers = [],
          body = Body (case userId (user request) of None \<Rightarrow> [] | Some u \<Rightarrow> u)\<rparr>"

definition failing_handler :: AuthenticatedHandler where
  "failing_handler request = Inl (Error ''Error'' ''boom'')"

section \<open>Properties\<close>

subsection \<open>Strings, module constants and the library\<close>

lemma split_on_no_delim: "d \<notin> set a \<Longrightarrow> split_on d a = [a]"
  by (induction a) auto

lemma split_on_first: "d \<notin> set a \<Longrightarrow> split_on d (a @ d # rest) = a # split_on d rest"
  by (induction a) auto

lemma split_on_three:
  "d \<notin> set a \<Longrightarrow> d \<notin> set b \<Longrightarrow> d \<notin> set c \<Longrightarrow> split_on d (a @ d # b @ d # c) = [a, b, c]"
  by (simp add: split_on_first split_on_no_delim)

lemma startsWith_iff: "startsWith s p \<longleftrightarrow> (\<exists>t. s = p @ t)"
  by (induction s p rule: startsWith.induct) auto

lemma bearer_prefix:
  "startsWith (''Bearer '' @ token) ''Bearer ''" "drop 7 (''Bearer '' @ token) = token"
  by simp_all

lemma load_module_secrets:
  "load_module env = Inr m \<Longrightarrow> VALIDATED_JWT_SECRET m = JWT_SECRET m \<and> JWT_SECRET m \<noteq> []"
  by (auto simp: load_module_def validateJWTSecret_def fallback_secret_def Let_def
           split: option.splits if_splits)

text \<open>What \<^verbatim>\<open>jwt.verify\<close> answers on a validly signed token: only expiry, audience and
  issuer are left to decide.\<close>

lemma jwt_verify_signed:
  assumes "validly_signed w secret
             (case algorithms options of None \<Rightarrow> HS_ALGS | Some algs \<Rightarrow> algs) token claims"
    and "secret \<noteq> []"
  shows "jwt_verify w token secret options now =
     (if exp claims \<noteq> None \<and> ignoreExpiration options \<noteq> Some True \<and>
         the (exp claims) + (case clockTolerance options of None \<Rightarrow> 0 | Some t \<Rightarrow> t) \<le> now
      then Inl (Error ''TokenExpiredError'' ''jwt expired'')
      else if audience options \<noteq> None \<and> aud claims \<noteq> audience options
      then Inl (Error ''JsonWebTokenError''
                  (''jwt audience invalid. expected: '' @ the (audience options)))
      else if issuer options \<noteq> None \<and> iss claims \<noteq> issuer options
      then Inl (Error ''JsonWebTokenError''
                  (''jwt issuer invalid. expected: '' @ the (issuer options)))
      else Inr claims)"
proof -
  from assms(1) obtain h p s header a where
    sp: "split_on CHR ''.'' token = [h, p, s]" and dh: "dec_header w h = Some header"
    and al: "alg header = Some a"
    and mem: "a \<in> set (case algorithms options of None \<Rightarrow> HS_ALGS | Some algs \<Rightarrow> algs)"
    and nb: "\<not> blank s" and sg: "s = hmac w a secret (h @ ''.'' @ p)"
    and dp: "dec_payload w p = Some claims"
    by (auto simp: validly_signed_def split: list.splits option.splits)
  from sp have ne: "token \<noteq> []" by auto
  show ?thesis
    unfolding jwt_verify_def using ne sp dh al mem nb sg dp assms(2)
    by simp
qed

text \<open>A token whose header names no accepted algorithm is refused, whatever its signature.\<close>

lemma jwt_verify_undeclared:
  assumes "declares w token a"
    and "a \<notin> Some ` set (case algorithms options of None \<Rightarrow> HS_ALGS | Some algs \<Rightarrow> algs)"
  shows "\<exists>n msg. jwt_verify w token secret options now = Inl (Error n msg) \<and>
           ((\<exists>claims. carries w token claims) \<longrightarrow> n = ''JsonWebTokenError'')"
proof -
  from assms(1) obtain h p s header where
    sp: "split_on CHR ''.'' token = [h, p, s]" and dh: "dec_header w h = Some header"
    and al: "alg header = a"
    by (auto simp: declares_def split: list.splits option.splits)
  from sp have ne: "token \<noteq> []" by auto
  show ?thesis
  proof (cases "dec_payload w p")
    case None
    then show ?thesis
      unfolding jwt_verify_def carries_def using ne sp dh by simp
  next
    case (Some claims)
    then show ?thesis
      unfolding jwt_verify_def carries_def using ne sp dh al assms(2)
      by (cases a) auto
  qed
qed

lemma jwt_verify_carries:
  "jwt_verify w token secret options now = Inr c \<Longrightarrow> carries w token c"
  by (auto simp: jwt_verify_def carries_def split: if_splits list.splits option.splits)

lemma carries_unique: "carries w token c \<Longrightarrow> carries w token c' \<Longrightarrow> c = c'"
  by (auto simp: carries_def split: list.splits)

lemma jws_sign_validly_signed:
  assumes "wire_carries w a claims secret"
  shows "validly_signed w secret [a] (jws_sign w a claims secret) claims"
    and "10 \<le> length (jws_sign w a claims secret)"
proof -
  let ?header = "\<lparr>alg = Some a, header_typ = Some ''JWT''\<rparr>"
  let ?h = "enc_header w ?header"
  let ?p = "enc_payload w claims"
  let ?s = "hmac w a secret (?h @ ''.'' @ ?p)"
  from assms have dots: "CHR ''.'' \<notin> set ?h" "CHR ''.'' \<notin> set ?p" "CHR ''.'' \<notin> set ?s"
    and nb: "\<not> blank ?s" and dh: "dec_header w ?h = Some ?header"
    and dp: "dec_payload w ?p = Some claims"
    and len: "10 \<le> length (?h @ ''.'' @ ?p @ ''.'' @ ?s)"
    by (simp_all add: wire_carries_def Let_def)
  have tok: "jws_sign w a claims secret = ?h @ CHR ''.'' # ?p @ CHR ''.'' # ?s"
    by (simp add: jws_sign_def Let_def)
  have sp: "split_on CHR ''.'' (jws_sign w a claims secret) = [?h, ?p, ?s]"
    unfolding tok using dots by (rule split_on_three)
  show "validly_signed w secret [a] (jws_sign w a claims secret) claims"
    unfolding validly_signed_def sp using nb dh dp by simp
  show "10 \<le> length (jws_sign w a claims secret)"
    using len unfolding tok by simp
qed

lemma sign_claims_secure:
  "sign_claims (secure_payload payload) secure_sign_options now =
     Inr \<lparr>userId = Some (in_userId payload), email = Some (in_email payload),
          role = in_role payload, type = None, iat = Some now, exp = Some (now + 900),
          iss = Some ''your-app-name'', aud = Some ''your-app-users''\<rparr>"
  by (simp add: sign_claims_def secure_payload_def secure_sign_options_def no_options_def
        no_claims_def Let_def)

lemma sign_claims_times:
  assumes "sign_claims payload options now = Inr claims" and "expiresIn options = Some d"
  shows "\<exists>issued. iat claims = Some issued \<and> exp claims = Some (issued + span_seconds d) \<and>
           (iat payload = None \<longrightarrow> issued = now)"
  using assms
  by (auto simp: sign_claims_def Let_def split: if_splits option.splits)

lemma jwt_sign_Inr:
  "jwt_sign w payload secret options now = Inr token \<Longrightarrow>
     \<exists>claims. sign_claims payload options now = Inr claims \<and>
       token = jws_sign w (case algorithm options of None \<Rightarrow> ''HS256'' | Some a \<Rightarrow> a) claims secret"
  by (auto simp: jwt_sign_def split: if_splits sum.splits)

subsection \<open>The hardened verifier and the interceptor\<close>

lemma verifyTokenSecure_signed:
  assumes vs: "validly_signed w (VALIDATED_JWT_SECRET m) [''HS256''] token claims"
    and ne: "VALIDATED_JWT_SECRET m \<noteq> []" and len: "10 \<le> length token"
  shows "verifyTokenSecure w m now token =
     (if exp claims \<noteq> None \<and> the (exp claims) + 30 \<le> now
      then Inl (Error ''Error'' ''Token has expired'')
      else if aud claims \<noteq> Some ''your-app-users'' \<or> iss claims \<noteq> Some ''your-app-name''
      then Inl (Error ''Error'' ''Invalid token format'')
      else if falsy (userId claims) \<or> falsy (email claims)
      then Inl (Error ''Error'' ''Invalid token payload: missing required fields'')
      else Inr claims)"
proof -
  have vs': "validly_signed w (VALIDATED_JWT_SECRET m)
      (case algorithms secure_verify_options of None \<Rightarrow> HS_ALGS | Some algs \<Rightarrow> algs) token claims"
    using vs by (simp add: secure_verify_options_def no_options_def)
  have tok: "token \<noteq> []" using len by auto
  show ?thesis
    unfolding verifyTokenSecure_def jwt_verify_signed [OF vs' ne]
    using tok len
    by (simp add: secure_verify_options_def no_options_def)
qed

lemma verifyTokenSecure_Inl:
  "verifyTokenSecure w m now token = Inl e \<Longrightarrow> \<exists>msg. e = Error ''Error'' msg"
  by (auto simp: verifyTokenSecure_def split: if_splits sum.splits js_error.splits)

lemma verifyTokenSecure_Inr:
  "verifyTokenSecure w m now token = Inr c \<longleftrightarrow>
     10 \<le> length token \<and>
     jwt_verify w token (VALIDATED_JWT_SECRET m) secure_verify_options now = Inr c \<and>
     \<not> falsy (userId c) \<and> \<not> falsy (email c)"
  by (auto simp: verifyTokenSecure_def split: if_splits sum.splits js_error.splits)

lemma status_on_catch: "status (on_catch e) = 401"
  by (cases e) (simp_all add: on_catch_def response_401_def)

lemma on_catch_shape:
  "failure_envelope (on_catch e) \<and> challenge (on_catch e) = Some ''Bearer''"
  by (cases e) (simp_all add: on_catch_def response_401_def failure_envelope_def challenge_def)

lemma authMiddleware_bearer:
  assumes "authorization request = Some (''Bearer '' @ token)" and "10 \<le> length token"
  shows "authMiddleware w m now handler request =
     \<lparr>verify_calls = [token],
      outcome =
        (case verifyTokenSecure w m now token of
           Inl error \<Rightarrow> Inr (on_catch error)
         | Inr decoded \<Rightarrow>
             (case handler (request.extend request (authenticated_request.fields decoded)) of
                Inl error \<Rightarrow> Inr (on_catch error)
              | Inr resp \<Rightarrow> Inr resp))\<rparr>"
proof -
  have "token \<noteq> []" using assms(2) by auto
  then show ?thesis
    unfolding authMiddleware_def using assms bearer_prefix [of token]
    by (simp add: Let_def del: startsWith.simps)
qed

lemma authMiddleware_calls:
  "verify_calls (authMiddleware w m now handler request) =
     (case authorization request of
        None \<Rightarrow> []
      | Some authHeader \<Rightarrow>
          if startsWith authHeader ''Bearer '' \<and> 10 \<le> length (drop 7 authHeader)
          then [drop 7 authHeader] else [])"
  by (auto simp: authMiddleware_def Let_def split: option.splits simp del: startsWith.simps)

lemma authMiddleware_total:
  "\<exists>resp. outcome (authMiddleware w m now handler request) = Inr resp \<and>
     ((\<exists>areq. handler areq = Inr resp) \<or>
      (status resp = 401 \<and> failure_envelope resp \<and> challenge resp = Some ''Bearer''))"
proof -
  have r401: "status (response_401 a b) = 401 \<and> failure_envelope (response_401 a b) \<and>
      challenge (response_401 a b) = Some ''Bearer''" for a b
    by (simp add: response_401_def failure_envelope_def challenge_def)
  show ?thesis
    unfolding authMiddleware_def Let_def
    by (auto simp: r401 status_on_catch on_catch_shape split: option.splits sum.splits
             simp del: startsWith.simps)
qed

lemma requireRole_bearer:
  assumes "authorization request = Some (''Bearer '' @ token)" and "10 \<le> length token"
    and "verifyTokenSecure w m now token = Inr decoded"
  shows "outcome (requireRole w m now roles handler request) =
     (if falsy (role decoded) \<or> the (role decoded) \<notin> set roles then Inr (response_403 roles)
      else (case handler (request.extend request (authenticated_request.fields decoded)) of
              Inl error \<Rightarrow> Inr (on_catch error)
            | Inr resp \<Rightarrow> Inr resp))"
  using assms(3)
  by (simp add: requireRole_def authMiddleware_bearer [OF assms(1,2)] roleMiddleware_def
        authenticated_request.defs request.defs)

subsection \<open>The fixture\<close>

lemma fixture_load: "load_module fixture_env = Inr fixture_module"
  by (simp add: load_module_def fixture_env_def fixture_module_def validateJWTSecret_def)

lemma fixture_bearer:
  "authorization (fixture_request token) = Some (''Bearer '' @ token)"
  by (simp add: fixture_request_def header_request_def)

lemma fixture_user_verified:
  "verifyTokenSecure fixture_wire fixture_module 1500 (fixture_token ''HS256'' ''claims-user'') =
     Inr (fixture_claims (Some ''a@b.c'') (Some ''user''))"
  by code_simp

lemma fixture_user_signed:
  "validly_signed fixture_wire (VALIDATED_JWT_SECRET fixture_module) [''HS256'']
     (fixture_token ''HS256'' ''claims-user'') (fixture_claims (Some ''a@b.c'') (Some ''user''))"
  "validly_signed fixture_wire (JWT_SECRET fixture_module) HS_ALGS
     (fixture_token ''HS256'' ''claims-user'') (fixture_claims (Some ''a@b.c'') (Some ''user''))"
  "10 \<le> length (fixture_token ''HS256'' ''claims-user'')"
  by code_simp+

subsection \<open>Round trip\<close>

text \<open>
  C1. For every claims input with a non-empty subject id, a non-empty email and an
  optional role, \<^verbatim>\<open>generateTokenSecure\<close> returns a token, and \<^verbatim>\<open>verifyTokenSecure\<close> on that
  token at any time before its expiry (fifteen minutes after signing) returns claims whose
  \<^verbatim>\<open>userId\<close>, \<^verbatim>\<open>email\<close> and \<^verbatim>\<open>role\<close> are those of the input. The module is loaded, and
  the platform's encoding carries the signed header and claims (\<open>wire_carries\<close>).
\<close>

theorem sign_verify_roundtrip:
  assumes "load_module env = Inr m"
    and "in_userId payload \<noteq> []" and "in_email payload \<noteq> []"
    and "sign_claims (secure_payload payload) secure_sign_options now = Inr claims"
    and "wire_carries w ''HS256'' claims (VALIDATED_JWT_SECRET m)"
    and "now' < now + 900"
  shows "\<exists>token verified.
           generateTokenSecure w m now payload = Inr token \<and>
           verifyTokenSecure w m now' token = Inr verified \<and>
           userId verified = Some (in_userId payload) \<and>
           email verified = Some (in_email payload) \<and>
           role verified = in_role payload"
proof -
  let ?secret = "VALIDATED_JWT_SECRET m"
  let ?token = "jws_sign w ''HS256'' claims ?secret"
  from assms(1) have ne: "?secret \<noteq> []" by (simp add: load_module_secrets)
  have gen: "generateTokenSecure w m now payload = Inr ?token"
    using assms(2,3,4) ne
    by (simp add: generateTokenSecure_def jwt_sign_def secure_sign_options_def no_options_def)
  have cl: "claims = \<lparr>userId = Some (in_userId payload), email = Some (in_email payload),
          role = in_role payload, type = None, iat = Some now, exp = Some (now + 900),
          iss = Some ''your-app-name'', aud = Some ''your-app-users''\<rparr>"
    using assms(4) by (simp add: sign_claims_secure)
  have ver: "verifyTokenSecure w m now' ?token = Inr claims"
    unfolding verifyTokenSecure_signed
      [OF jws_sign_validly_signed(1) [OF assms(5)] ne jws_sign_validly_signed(2) [OF assms(5)]]
    using assms(2,3,6) by (simp add: cl falsy_def)
  show ?thesis using gen ver by (simp add: cl)
qed

theorem sign_verify_roundtrip_witness:
  "load_module fixture_env = Inr fixture_module \<and>
   in_userId fixture_input \<noteq> [] \<and> in_email fixture_input \<noteq> [] \<and>
   sign_claims (secure_payload fixture_input) secure_sign_options 1000 =
     Inr (fixture_claims (Some ''a@b.c'') (Some ''user'')) \<and>
   wire_carries fixture_wire ''HS256'' (fixture_claims (Some ''a@b.c'') (Some ''user''))
     (VALIDATED_JWT_SECRET fixture_module) \<and>
   (1500 :: int) < 1000 + 900 \<and>
   (\<exists>token verified.
      generateTokenSecure fixture_wire fixture_module 1000 fixture_input = Inr token \<and>
      verifyTokenSecure fixture_wire fixture_module 1500 token = Inr verified \<and>
      userId verified = Some (in_userId fixture_input) \<and>
      email verified = Some (in_email fixture_input) \<and>
      role verified = in_role fixture_input)"
proof -
  have h2: "in_userId fixture_input \<noteq> []" and h3: "in_email fixture_input \<noteq> []"
    by (simp_all add: fixture_input_def)
  have h4: "sign_claims (secure_payload fixture_input) secure_sign_options 1000 =
     Inr (fixture_claims (Some ''a@b.c'') (Some ''user''))"
    by code_simp
  have h5: "wire_carries fixture_wire ''HS256'' (fixture_claims (Some ''a@b.c'') (Some ''user''))
     (VALIDATED_JWT_SECRET fixture_module)"
    by code_simp
  have h6: "(1500 :: int) < 1000 + 900" by simp
  from sign_verify_roundtrip [OF fixture_load h2 h3 h4 h5 h6] fixture_load h2 h3 h4 h5 h6
  show ?thesis by blast
qed

subsection \<open>Algorithm pinning\<close>

text \<open>
  C2 (as the code has it). For every token whose header declares an algorithm other than
  HS256, or none at all, \<^verbatim>\<open>verifyTokenSecure\<close> rejects it and never returns claims, a
  signature-shaped third segment or not; when the claims segment decodes, the error is
  the invalid-token error (\<^verbatim>\<open>Invalid token format\<close>, or the too-short error for a token of
  fewer than ten characters). The legacy \<^verbatim>\<open>verifyToken\<close> gives the library no list of
  algorithms: it rejects every token whose algorithm is not one of HS256, HS384, HS512
  (so the algorithm \<^verbatim>\<open>none\<close> too), with a \<^verbatim>\<open>JsonWebTokenError\<close> when the claims decode.
\<close>

theorem algorithm_pinning:
  assumes "declares w token a" and "a \<noteq> Some ''HS256''"
  shows "(\<exists>msg. verifyTokenSecure w m now token = Inl (Error ''Error'' msg)) \<and>
         ((\<exists>claims. carries w token claims) \<longrightarrow>
            verifyTokenSecure w m now token = Inl (Error ''Error'' ''Invalid token format'') \<or>
            verifyTokenSecure w m now token =
              Inl (Error ''Error'' ''Token verification error: Invalid token: token too short'')) \<and>
         (a \<notin> Some ` set HS_ALGS \<longrightarrow>
            (\<exists>n msg. verifyToken w m now token = Inl (Error n msg) \<and>
               ((\<exists>claims. carries w token claims) \<longrightarrow> n = ''JsonWebTokenError'')))"
proof -
  have sec: "a \<notin> Some ` set (case algorithms secure_verify_options of
                                 None \<Rightarrow> HS_ALGS | Some algs \<Rightarrow> algs)"
    using assms(2) by (auto simp: secure_verify_options_def no_options_def)
  from jwt_verify_undeclared [OF assms(1) sec]
  obtain n msg where
    v: "jwt_verify w token (VALIDATED_JWT_SECRET m) secure_verify_options now = Inl (Error n msg)"
    and cls: "(\<exists>claims. carries w token claims) \<longrightarrow> n = ''JsonWebTokenError''"
    by blast
  have 1: "\<exists>msg. verifyTokenSecure w m now token = Inl (Error ''Error'' msg)"
    using v by (simp add: verifyTokenSecure_def)
  have 2: "verifyTokenSecure w m now token = Inl (Error ''Error'' ''Invalid token format'') \<or>
           verifyTokenSecure w m now token =
              Inl (Error ''Error'' ''Token verification error: Invalid token: token too short'')"
    if "\<exists>claims. carries w token claims"
    using v cls that by (auto simp: verifyTokenSecure_def carries_def)
  have 3: "\<exists>n msg. verifyToken w m now token = Inl (Error n msg) \<and>
               ((\<exists>claims. carries w token claims) \<longrightarrow> n = ''JsonWebTokenError'')"
    if "a \<notin> Some ` set HS_ALGS"
  proof -
    have leg: "a \<notin> Some ` set (case algorithms no_options of None \<Rightarrow> HS_ALGS | Some algs \<Rightarrow> algs)"
      using that by (simp add: no_options_def)
    show ?thesis
      unfolding verifyToken_def by (rule jwt_verify_undeclared [OF assms(1) leg])
  qed
  show ?thesis using 1 2 3 by blast
qed

theorem algorithm_pinning_witness:
  "declares fixture_wire (fixture_token ''none'' ''claims-user'') (Some ''none'') \<and>
   Some ''none'' \<noteq> Some ''HS256'' \<and>
   carries fixture_wire (fixture_token ''none'' ''claims-user'')
     (fixture_claims (Some ''a@b.c'') (Some ''user'')) \<and>
   Some ''none'' \<notin> Some ` set HS_ALGS \<and>
   verifyTokenSecure fixture_wire fixture_module 1500 (fixture_token ''none'' ''claims-user'') =
     Inl (Error ''Error'' ''Invalid token format'') \<and>
   (\<exists>msg. verifyToken fixture_wire fixture_module 1500 (fixture_token ''none'' ''claims-user'') =
      Inl (Error ''JsonWebTokenError'' msg))"
proof -
  let ?token = "fixture_token ''none'' ''claims-user''"
  have h1: "declares fixture_wire ?token (Some ''none'')" by code_simp
  have h2: "Some ''none'' \<noteq> Some ''HS256''" by simp
  have h3: "carries fixture_wire ?token (fixture_claims (Some ''a@b.c'') (Some ''user''))"
    by code_simp
  have h4: "Some ''none'' \<notin> Some ` set HS_ALGS" by (simp add: HS_ALGS_def)
  have h5: "10 \<le> length ?token" by code_simp
  have h6: "verifyTokenSecure fixture_wire fixture_module 1500 ?token \<noteq>
              Inl (Error ''Error'' ''Token verification error: Invalid token: token too short'')"
    using h5 by (auto simp: verifyTokenSecure_def split: sum.splits js_error.splits)
  from algorithm_pinning [OF h1 h2, where m = fixture_module and now = 1500] h1 h2 h3 h4 h6
  show ?thesis by blast
qed

text \<open>
  C2 as stated fails on the legacy path: a token whose header declares HS384, signed with
  the secret under that algorithm, is verified by \<^verbatim>\<open>verifyToken\<close>.
\<close>

theorem legacy_accepts_hs384:
  "fixture_token ''HS384'' ''claims-user'' =
     jws_sign fixture_wire ''HS384'' (fixture_claims (Some ''a@b.c'') (Some ''user''))
       (JWT_SECRET fixture_module) \<and>
   declares fixture_wire (fixture_token ''HS384'' ''claims-user'') (Some ''HS384'') \<and>
   verifyToken fixture_wire fixture_module 1500 (fixture_token ''HS384'' ''claims-user'') =
     Inr (fixture_claims (Some ''a@b.c'') (Some ''user''))"
  by code_simp

subsection \<open>Errors of the wrapped handler\<close>

text \<open>
  C3 (as the code has it). The call of the handler is inside the interceptor's
  \<^verbatim>\<open>try\<close> block: when the request passes authentication and the handler throws, the
  interceptor catches the error and returns the failure response its \<^verbatim>\<open>catch\<close> block
  chooses from the error's message, with status 401, the failure envelope and the
  challenge header. The handler's error does not reach the caller.
\<close>

theorem handler_errors_caught:
  assumes "authorization request = Some (''Bearer '' @ token)" and "10 \<le> length token"
    and "verifyTokenSecure w m now token = Inr decoded"
    and "handler (request.extend request (authenticated_request.fields decoded)) = Inl error"
  shows "outcome (authMiddleware w m now handler request) = Inr (on_catch error) \<and>
         status (on_catch error) = 401 \<and> failure_envelope (on_catch error) \<and>
         challenge (on_catch error) = Some ''Bearer''"
  using assms(3,4)
  by (simp add: authMiddleware_bearer [OF assms(1,2)] status_on_catch on_catch_shape)

theorem handler_errors_caught_witness:
  "authorization (fixture_request (fixture_token ''HS256'' ''claims-user'')) =
     Some (''Bearer '' @ fixture_token ''HS256'' ''claims-user'') \<and>
   10 \<le> length (fixture_token ''HS256'' ''claims-user'') \<and>
   verifyTokenSecure fixture_wire fixture_module 1500 (fixture_token ''HS256'' ''claims-user'') =
     Inr (fixture_claims (Some ''a@b.c'') (Some ''user'')) \<and>
   failing_handler (request.extend (fixture_request (fixture_token ''HS256'' ''claims-user''))
      (authenticated_request.fields (fixture_claims (Some ''a@b.c'') (Some ''user'')))) =
     Inl (Error ''Error'' ''boom'') \<and>
   outcome (authMiddleware fixture_wire fixture_module 1500 failing_handler
      (fixture_request (fixture_token ''HS256'' ''claims-user''))) =
     Inr (on_catch (Error ''Error'' ''boom'')) \<and>
   status (on_catch (Error ''Error'' ''boom'')) = 401"
proof -
  have h4: "failing_handler (request.extend (fixture_request (fixture_token ''HS256'' ''claims-user''))
      (authenticated_request.fields (fixture_claims (Some ''a@b.c'') (Some ''user'')))) =
     Inl (Error ''Error'' ''boom'')"
    by (simp add: failing_handler_def)
  note h1 = fixture_bearer [of "fixture_token ''HS256'' ''claims-user''"]
  from handler_errors_caught [where handler = failing_handler,
         OF h1 fixture_user_signed(3) fixture_user_verified h4]
    h1 fixture_user_signed(3) fixture_user_verified h4
  show ?thesis by blast
qed

text \<open>
  C3 as stated fails: the request passes authentication, the handler throws, and the
  interceptor returns a response with status 401 instead of letting the error through.
\<close>

theorem handler_error_becomes_401:
  "verifyTokenSecure fixture_wire fixture_module 1500 (fixture_token ''HS256'' ''claims-user'') =
     Inr (fixture_claims (Some ''a@b.c'') (Some ''user'')) \<and>
   failing_handler (request.extend (fixture_request (fixture_token ''HS256'' ''claims-user''))
      (authenticated_request.fields (fixture_claims (Some ''a@b.c'') (Some ''user'')))) =
     Inl (Error ''Error'' ''boom'') \<and>
   outcome (authMiddleware fixture_wire fixture_module 1500 failing_handler
      (fixture_request (fixture_token ''HS256'' ''claims-user''))) =
     Inr \<lparr>status = 401,
          headers = [(''Content-Type'', ''application/json''), (''WWW-Authenticate'', ''Bearer'')],
          body = JSON_stringify [(''error'', ''Authentication failed''),
                   (''message'', ''Unable to authenticate request'')]\<rparr>"
  by code_simp

subsection \<open>Scheme enforcement\<close>

text \<open>
  C4. When the Authorization header is missing, empty, \<^verbatim>\<open>Token abc\<close>, \<^verbatim>\<open>bearer abc\<close> or
  \<^verbatim>\<open>Bearer\<close>, the interceptor answers with status 401 and hands no token to verification.
  It hands a token to verification exactly when the header is \<^verbatim>\<open>Bearer \<close> followed by a
  candidate token of at least ten characters, and then that token.
\<close>

theorem scheme_enforcement:
  "(authorization request \<in> {None, Some [], Some ''Token abc'', Some ''bearer abc'', Some ''Bearer''} \<longrightarrow>
      verify_calls (authMiddleware w m now handler request) = [] \<and>
      (\<exists>resp. outcome (authMiddleware w m now handler request) = Inr resp \<and> status resp = 401)) \<and>
   (verify_calls (authMiddleware w m now handler request) \<noteq> [] \<longleftrightarrow>
      (\<exists>token. authorization request = Some (''Bearer '' @ token) \<and> 10 \<le> length token)) \<and>
   (\<forall>token. authorization request = Some (''Bearer '' @ token) \<and> 10 \<le> length token \<longrightarrow>
      verify_calls (authMiddleware w m now handler request) = [token])"
proof -
  have 1: "verify_calls (authMiddleware w m now handler request) = [] \<and>
      (\<exists>resp. outcome (authMiddleware w m now handler request) = Inr resp \<and> status resp = 401)"
    if "authorization request \<in> {None, Some [], Some ''Token abc'', Some ''bearer abc'', Some ''Bearer''}"
    using that by (auto simp: authMiddleware_def response_401_def)
  have 3: "verify_calls (authMiddleware w m now handler request) = [token]"
    if "authorization request = Some (''Bearer '' @ token)" "10 \<le> length token" for token
    using that by (simp add: authMiddleware_bearer)
  have 2: "\<exists>token. authorization request = Some (''Bearer '' @ token) \<and> 10 \<le> length token"
    if "verify_calls (authMiddleware w m now handler request) \<noteq> []"
  proof -
    from that obtain authHeader where
      a: "authorization request = Some authHeader" and b: "startsWith authHeader ''Bearer ''"
      and c: "10 \<le> length (drop 7 authHeader)"
      by (auto simp: authMiddleware_calls split: option.splits if_splits simp del: startsWith.simps)
    from b obtain token where t: "authHeader = ''Bearer '' @ token"
      unfolding startsWith_iff by blast
    with c have "10 \<le> length token" by simp
    with a t show ?thesis by blast
  qed
  show ?thesis using 1 2 3 by (metis list.distinct(1))
qed

theorem scheme_enforcement_witness:
  "authorization (header_request (Some ''bearer abc'')) \<in>
     {None, Some [], Some ''Token abc'', Some ''bearer abc'', Some ''Bearer''} \<and>
   verify_calls (authMiddleware fixture_wire fixture_module 1500 profile_handler
     (header_request (Some ''bearer abc''))) = [] \<and>
   (\<exists>resp. outcome (authMiddleware fixture_wire fixture_module 1500 profile_handler
      (header_request (Some ''bearer abc''))) = Inr resp \<and> status resp = 401) \<and>
   authorization (fixture_request (fixture_token ''HS256'' ''claims-user'')) =
     Some (''Bearer '' @ fixture_token ''HS256'' ''claims-user'') \<and>
   10 \<le> length (fixture_token ''HS256'' ''claims-user'') \<and>
   verify_calls (authMiddleware fixture_wire fixture_module 1500 profile_handler
     (fixture_request (fixture_token ''HS256'' ''claims-user''))) =
     [fixture_token ''HS256'' ''claims-user'']"
proof -
  have h1: "authorization (header_request (Some ''bearer abc'')) \<in>
     {None, Some [], Some ''Token abc'', Some ''bearer abc'', Some ''Bearer''}"
    by (simp add: header_request_def)
  from scheme_enforcement [where request = "header_request (Some ''bearer abc'')"
         and w = fixture_wire and m = fixture_module and now = 1500 and handler = profile_handler]
       scheme_enforcement [where request = "fixture_request (fixture_token ''HS256'' ''claims-user'')"
         and w = fixture_wire and m = fixture_module and now = 1500 and handler = profile_handler]
       h1 fixture_bearer [of "fixture_token ''HS256'' ''claims-user''"] fixture_user_signed(3)
  show ?thesis by blast
qed

subsection \<open>Expiry boundary\<close>

text \<open>
  C5. For every validly signed token with expiry timestamp \<open>expires_at\<close>: the hardened
  verifier (clock-skew allowance 30 seconds) fails with the expired error at every time
  after \<open>expires_at + 30\<close>, and the legacy verifier (no allowance) fails with
  \<^verbatim>\<open>TokenExpiredError\<close> at every time after \<open>expires_at\<close>; at every time before
  \<open>expires_at\<close> the hardened verifier does not fail with the expired error and the legacy
  verifier returns the claims. A token for the hardened verifier names HS256 and has at
  least ten characters, as every serialised token has.
\<close>

theorem expiry_boundary:
  assumes "load_module env = Inr m" and "exp claims = Some expires_at"
  shows "(validly_signed w (VALIDATED_JWT_SECRET m) [''HS256''] token claims \<and> 10 \<le> length token \<longrightarrow>
            clockTolerance secure_verify_options = Some 30 \<and>
            (expires_at + 30 < now \<longrightarrow>
               verifyTokenSecure w m now token = Inl (Error ''Error'' ''Token has expired'')) \<and>
            (now < expires_at \<longrightarrow>
               verifyTokenSecure w m now token \<noteq> Inl (Error ''Error'' ''Token has expired''))) \<and>
         (validly_signed w (JWT_SECRET m) HS_ALGS token claims \<longrightarrow>
            clockTolerance no_options = None \<and>
            (expires_at < now \<longrightarrow>
               verifyToken w m now token = Inl (Error ''TokenExpiredError'' ''jwt expired'')) \<and>
            (now < expires_at \<longrightarrow> verifyToken w m now token = Inr claims))"
proof -
  from assms(1) have ne: "VALIDATED_JWT_SECRET m \<noteq> []" "JWT_SECRET m \<noteq> []"
    by (simp_all add: load_module_secrets)
  have secure: "clockTolerance secure_verify_options = Some 30 \<and>
            (expires_at + 30 < now \<longrightarrow>
               verifyTokenSecure w m now token = Inl (Error ''Error'' ''Token has expired'')) \<and>
            (now < expires_at \<longrightarrow>
               verifyTokenSecure w m now token \<noteq> Inl (Error ''Error'' ''Token has expired''))"
    if "validly_signed w (VALIDATED_JWT_SECRET m) [''HS256''] token claims" "10 \<le> length token"
    unfolding verifyTokenSecure_signed [OF that(1) ne(1) that(2)]
    using assms(2) by (simp add: secure_verify_options_def no_options_def)
  have legacy: "clockTolerance no_options = None \<and>
            (expires_at < now \<longrightarrow>
               verifyToken w m now token = Inl (Error ''TokenExpiredError'' ''jwt expired'')) \<and>
            (now < expires_at \<longrightarrow> verifyToken w m now token = Inr claims)"
    if "validly_signed w (JWT_SECRET m) HS_ALGS token claims"
  proof -
    have vs: "validly_signed w (JWT_SECRET m)
        (case algorithms no_options of None \<Rightarrow> HS_ALGS | Some algs \<Rightarrow> algs) token claims"
      using that by (simp add: no_options_def)
    show ?thesis
      unfolding verifyToken_def jwt_verify_signed [OF vs ne(2)]
      using assms(2) by (simp add: no_options_def)
  qed
  show ?thesis using secure legacy by blast
qed

theorem expiry_boundary_witness:
  "load_module fixture_env = Inr fixture_module \<and>
   exp (fixture_claims (Some ''a@b.c'') (Some ''user'')) = Some 1900 \<and>
   validly_signed fixture_wire (VALIDATED_JWT_SECRET fixture_module) [''HS256'']
     (fixture_token ''HS256'' ''claims-user'') (fixture_claims (Some ''a@b.c'') (Some ''user'')) \<and>
   10 \<le> length (fixture_token ''HS256'' ''claims-user'') \<and>
   validly_signed fixture_wire (JWT_SECRET fixture_module) HS_ALGS
     (fixture_token ''HS256'' ''claims-user'') (fixture_claims (Some ''a@b.c'') (Some ''user'')) \<and>
   verifyTokenSecure fixture_wire fixture_module 1931 (fixture_token ''HS256'' ''claims-user'') =
     Inl (Error ''Error'' ''Token has expired'') \<and>
   verifyToken fixture_wire fixture_module 1931 (fixture_token ''HS256'' ''claims-user'') =
     Inl (Error ''TokenExpiredError'' ''jwt expired'') \<and>
   verifyTokenSecure fixture_wire fixture_module 1899 (fixture_token ''HS256'' ''claims-user'') \<noteq>
     Inl (Error ''Error'' ''Token has expired'') \<and>
   verifyToken fixture_wire fixture_module 1899 (fixture_token ''HS256'' ''claims-user'') =
     Inr (fixture_claims (Some ''a@b.c'') (Some ''user''))"
proof -
  have h2: "exp (fixture_claims (Some ''a@b.c'') (Some ''user'')) = Some 1900"
    by (simp add: fixture_claims_def)
  have late: "(1900 :: int) + 30 < 1931" "(1900 :: int) < 1931" and early: "(1899 :: int) < 1900"
    by simp_all
  from expiry_boundary [OF fixture_load h2, where w = fixture_wire
         and token = "fixture_token ''HS256'' ''claims-user''" and now = 1931]
       expiry_boundary [OF fixture_load h2, where w = fixture_wire
         and token = "fixture_token ''HS256'' ''claims-user''" and now = 1899]
       fixture_load h2 fixture_user_signed late early
  show ?thesis by blast
qed

subsection \<open>Role gate\<close>

text \<open>
  C6 (as the code has it). For every list of acceptable roles and every request whose
  token verifies, the handler made by \<^verbatim>\<open>requireRole\<close> returns the response with status 403
  when the role of the claims is absent, is the empty string, or is not in the list; when
  the role is a non-empty member of the list it calls the wrapped handler with the request
  extended by the claims, and returns what the interceptor makes of the handler's result.
  A token with role \<^verbatim>\<open>user\<close> gets 403 under \<^verbatim>\<open>["admin"]\<close> and reaches the handler under
  \<^verbatim>\<open>["user", "admin"]\<close>.
\<close>

theorem role_gate:
  assumes "authorization request = Some (''Bearer '' @ token)" and "10 \<le> length token"
    and "verifyTokenSecure w m now token = Inr decoded"
  shows "(role decoded = None \<or> role decoded = Some [] \<or>
            (\<exists>r. role decoded = Some r \<and> r \<notin> set roles) \<longrightarrow>
            outcome (requireRole w m now roles handler request) = Inr (response_403 roles) \<and>
            status (response_403 roles) = 403) \<and>
         ((\<exists>r. role decoded = Some r \<and> r \<noteq> [] \<and> r \<in> set roles) \<longrightarrow>
            outcome (requireRole w m now roles handler request) =
              (case handler (request.extend request (authenticated_request.fields decoded)) of
                 Inl error \<Rightarrow> Inr (on_catch error)
               | Inr resp \<Rightarrow> Inr resp)) \<and>
         (role decoded = Some ''user'' \<longrightarrow>
            outcome (requireRole w m now [''admin''] handler request) =
              Inr (response_403 [''admin'']) \<and>
            outcome (requireRole w m now [''user'', ''admin''] handler request) =
              (case handler (request.extend request (authenticated_request.fields decoded)) of
                 Inl error \<Rightarrow> Inr (on_catch error)
               | Inr resp \<Rightarrow> Inr resp))"
  by (auto simp: requireRole_bearer [OF assms] falsy_def response_403_def)

theorem role_gate_witness:
  "authorization (fixture_request (fixture_token ''HS256'' ''claims-user'')) =
     Some (''Bearer '' @ fixture_token ''HS256'' ''claims-user'') \<and>
   10 \<le> length (fixture_token ''HS256'' ''claims-user'') \<and>
   verifyTokenSecure fixture_wire fixture_module 1500 (fixture_token ''HS256'' ''claims-user'') =
     Inr (fixture_claims (Some ''a@b.c'') (Some ''user'')) \<and>
   role (fixture_claims (Some ''a@b.c'') (Some ''user'')) = Some ''user'' \<and>
   outcome (requireRole fixture_wire fixture_module 1500 [''admin''] profile_handler
      (fixture_request (fixture_token ''HS256'' ''claims-user''))) =
     Inr (response_403 [''admin'']) \<and>
   status (response_403 [''admin'']) = 403 \<and>
   outcome (requireRole fixture_wire fixture_module 1500 [''user'', ''admin''] profile_handler
      (fixture_request (fixture_token ''HS256'' ''claims-user''))) =
     Inr \<lparr>status = 200, headers = [], body = Body ''42''\<rparr>"
proof -
  have r: "role (fixture_claims (Some ''a@b.c'') (Some ''user'')) = Some ''user''"
    by (simp add: fixture_claims_def)
  have m1: "''user'' \<notin> set [''admin'']" and m2: "''user'' \<noteq> [] \<and> ''user'' \<in> set [''user'', ''admin'']"
    by simp_all
  have h: "profile_handler (request.extend (fixture_request (fixture_token ''HS256'' ''claims-user''))
      (authenticated_request.fields (fixture_claims (Some ''a@b.c'') (Some ''user'')))) =
     Inr \<lparr>status = 200, headers = [], body = Body ''42''\<rparr>"
    by (simp add: profile_handler_def fixture_claims_def authenticated_request.defs request.defs)
  note h1 = fixture_bearer [of "fixture_token ''HS256'' ''claims-user''"]
  from role_gate [OF h1 fixture_user_signed(3) fixture_user_verified,
         where roles = "[''admin'']" and handler = profile_handler]
       role_gate [OF h1 fixture_user_signed(3) fixture_user_verified,
         where roles = "[''user'', ''admin'']" and handler = profile_handler]
       h1 fixture_user_signed(3) fixture_user_verified r m1 m2 h
  show ?thesis by simp
qed

text \<open>
  C6 as stated fails for an empty role: the token verifies, its role is the empty string,
  the empty string is in the list of acceptable roles, and the answer is 403, not the
  handler's.
\<close>

theorem empty_role_forbidden:
  "verifyTokenSecure fixture_wire fixture_module 1500 (fixture_token ''HS256'' ''claims-empty-role'') =
     Inr (fixture_claims (Some ''a@b.c'') (Some [])) \<and>
   role (fixture_claims (Some ''a@b.c'') (Some [])) = Some [] \<and>
   [] \<in> set [[] :: string] \<and>
   outcome (requireRole fixture_wire fixture_module 1500 [[]] profile_handler
      (fixture_request (fixture_token ''HS256'' ''claims-empty-role''))) =
     Inr \<lparr>status = 403, headers = [(''Content-Type'', ''application/json'')],
          body = JSON_stringify [(''error'', ''Insufficient permissions''),
                   (''message'', ''Access denied. Required roles: '')]\<rparr>"
  by code_simp

subsection \<open>The signing secret\<close>

text \<open>
  C7 (as the code has it). Outside the test environment, a signing secret that is absent
  or shorter than 32 characters makes the load of the token module throw, so no signer or
  verifier exists; and whenever the module does load there, both module constants are the
  supplied secret, of at least 32 characters, never the hardcoded fallback in its place.
\<close>

theorem secret_validated_outside_test:
  "env_NODE_ENV env \<noteq> Some ''test'' \<Longrightarrow>
     (secret_missing_or_short env \<longrightarrow> (\<exists>msg. load_module env = Inl (Error ''Error'' msg))) \<and>
     (\<forall>m. load_module env = Inr m \<longrightarrow>
        env_JWT_SECRET env = Some (JWT_SECRET m) \<and>
        VALIDATED_JWT_SECRET m = JWT_SECRET m \<and> 32 \<le> length (JWT_SECRET m))"
  by (auto simp: load_module_def validateJWTSecret_def secret_missing_or_short_def Let_def
           split: option.splits if_splits)

theorem secret_validated_outside_test_witness:
  "env_NODE_ENV \<lparr>env_JWT_SECRET = Some ''short'', env_NODE_ENV = Some ''production''\<rparr>
     \<noteq> Some ''test'' \<and>
   secret_missing_or_short \<lparr>env_JWT_SECRET = Some ''short'', env_NODE_ENV = Some ''production''\<rparr> \<and>
   (\<exists>msg. load_module \<lparr>env_JWT_SECRET = Some ''short'', env_NODE_ENV = Some ''production''\<rparr>
      = Inl (Error ''Error'' msg)) \<and>
   env_NODE_ENV fixture_env \<noteq> Some ''test'' \<and>
   load_module fixture_env = Inr fixture_module \<and>
   env_JWT_SECRET fixture_env = Some (JWT_SECRET fixture_module) \<and>
   VALIDATED_JWT_SECRET fixture_module = JWT_SECRET fixture_module \<and>
   32 \<le> length (JWT_SECRET fixture_module)"
proof -
  have h1: "env_NODE_ENV \<lparr>env_JWT_SECRET = Some ''short'', env_NODE_ENV = Some ''production''\<rparr>
     \<noteq> Some ''test''" by simp
  have h2: "secret_missing_or_short
     \<lparr>env_JWT_SECRET = Some ''short'', env_NODE_ENV = Some ''production''\<rparr>"
    by (simp add: secret_missing_or_short_def)
  have h3: "env_NODE_ENV fixture_env \<noteq> Some ''test''" by (simp add: fixture_env_def)
  from secret_validated_outside_test [OF h1] secret_validated_outside_test [OF h3]
       h1 h2 h3 fixture_load
  show ?thesis by blast
qed

text \<open>
  C7 as stated fails in the test environment: with no secret configured the module loads,
  and both constants are the hardcoded fallback.
\<close>

theorem fallback_secret_in_test_env:
  "secret_missing_or_short \<lparr>env_JWT_SECRET = None, env_NODE_ENV = Some ''test''\<rparr> \<and>
   load_module \<lparr>env_JWT_SECRET = None, env_NODE_ENV = Some ''test''\<rparr> =
     Inr \<lparr>JWT_SECRET = ''super-secret-key-for-workshop-demo-only'',
          VALIDATED_JWT_SECRET = ''super-secret-key-for-workshop-demo-only''\<rparr>"
  by (simp add: secret_missing_or_short_def load_module_def fallback_secret_def Let_def)

subsection \<open>Token lifetimes\<close>

text \<open>
  C8 (as the code has it). Every token a signer mints carries \<^verbatim>\<open>exp = iat + TTL\<close> with a
  TTL fixed by the signer: fifteen minutes for \<^verbatim>\<open>generateTokenSecure\<close>, seven days for
  \<^verbatim>\<open>generateRefreshToken\<close>, both issued at the clock, and the refresh TTL is more than ten
  times the fifteen minutes; the legacy \<^verbatim>\<open>generateToken\<close> mints with a TTL of twenty-four
  hours.
\<close>

theorem token_lifetimes:
  "(generateTokenSecure w m now payload = Inr token \<longrightarrow>
      (\<exists>claims. token = jws_sign w ''HS256'' claims (VALIDATED_JWT_SECRET m) \<and>
         iat claims = Some now \<and> exp claims = Some (now + span_seconds (Minutes 15)))) \<and>
   (generateRefreshToken w m now uid = Inr token \<longrightarrow>
      (\<exists>claims. token = jws_sign w ''HS256'' claims (VALIDATED_JWT_SECRET m) \<and>
         iat claims = Some now \<and> exp claims = Some (now + span_seconds (Days 7)))) \<and>
   (generateToken w m now legacy_payload = Inr token \<longrightarrow>
      (\<exists>claims issued. token = jws_sign w ''HS256'' claims (JWT_SECRET m) \<and>
         iat claims = Some issued \<and> exp claims = Some (issued + span_seconds (Hours 24)))) \<and>
   span_seconds (Minutes 15) = 15 * 60 \<and> span_seconds (Hours 24) = 24 * 3600 \<and>
   span_seconds (Days 7) = 7 * 86400 \<and>
   10 * span_seconds (Minutes 15) \<le> span_seconds (Days 7)"
proof -
  have 1: "\<exists>claims. token = jws_sign w ''HS256'' claims (VALIDATED_JWT_SECRET m) \<and>
         iat claims = Some now \<and> exp claims = Some (now + span_seconds (Minutes 15))"
    if g: "generateTokenSecure w m now payload = Inr token"
  proof -
    from g have "jwt_sign w (secure_payload payload) (VALIDATED_JWT_SECRET m)
                   secure_sign_options now = Inr token"
      by (auto simp: generateTokenSecure_def split: if_splits sum.splits js_error.splits)
    from jwt_sign_Inr [OF this] obtain claims where
      c: "sign_claims (secure_payload payload) secure_sign_options now = Inr claims"
      and t: "token = jws_sign w ''HS256'' claims (VALIDATED_JWT_SECRET m)"
      by (auto simp: secure_sign_options_def no_options_def)
    from sign_claims_times [OF c, of "Minutes 15"]
    have "iat claims = Some now \<and> exp claims = Some (now + span_seconds (Minutes 15))"
      by (auto simp: secure_sign_options_def no_options_def secure_payload_def no_claims_def)
    with t show ?thesis by blast
  qed
  have 2: "\<exists>claims. token = jws_sign w ''HS256'' claims (VALIDATED_JWT_SECRET m) \<and>
         iat claims = Some now \<and> exp claims = Some (now + span_seconds (Days 7))"
    if g: "generateRefreshToken w m now uid = Inr token"
  proof -
    from g have "jwt_sign w (refresh_payload uid) (VALIDATED_JWT_SECRET m)
                   refresh_sign_options now = Inr token"
      by (auto simp: generateRefreshToken_def split: if_splits sum.splits js_error.splits)
    from jwt_sign_Inr [OF this] obtain claims where
      c: "sign_claims (refresh_payload uid) refresh_sign_options now = Inr claims"
      and t: "token = jws_sign w ''HS256'' claims (VALIDATED_JWT_SECRET m)"
      by (auto simp: refresh_sign_options_def no_options_def)
    from sign_claims_times [OF c, of "Days 7"]
    have "iat claims = Some now \<and> exp claims = Some (now + span_seconds (Days 7))"
      by (auto simp: refresh_sign_options_def no_options_def refresh_payload_def no_claims_def)
    with t show ?thesis by blast
  qed
  have 3: "\<exists>claims issued. token = jws_sign w ''HS256'' claims (JWT_SECRET m) \<and>
         iat claims = Some issued \<and> exp claims = Some (issued + span_seconds (Hours 24))"
    if g: "generateToken w m now legacy_payload = Inr token"
  proof -
    from g have "jwt_sign w legacy_payload (JWT_SECRET m) legacy_sign_options now = Inr token"
      by (simp add: generateToken_def)
    from jwt_sign_Inr [OF this] obtain claims where
      c: "sign_claims legacy_payload legacy_sign_options now = Inr claims"
      and t: "token = jws_sign w ''HS256'' claims (JWT_SECRET m)"
      by (auto simp: legacy_sign_options_def no_options_def)
    from sign_claims_times [OF c, of "Hours 24"]
    obtain issued where "iat claims = Some issued \<and> exp claims = Some (issued + span_seconds (Hours 24))"
      by (auto simp: legacy_sign_options_def no_options_def)
    with t show ?thesis by blast
  qed
  show ?thesis using 1 2 3 by simp
qed

theorem token_lifetimes_witness:
  "generateTokenSecure fixture_wire fixture_module 1000 fixture_input =
     Inr (fixture_token ''HS256'' ''claims-user'') \<and>
   (\<exists>claims. fixture_token ''HS256'' ''claims-user'' =
        jws_sign fixture_wire ''HS256'' claims (VALIDATED_JWT_SECRET fixture_module) \<and>
      iat claims = Some 1000 \<and> exp claims = Some (1000 + span_seconds (Minutes 15))) \<and>
   generateRefreshToken fixture_wire fixture_module 1000 ''42'' =
     Inr (fixture_token ''HS256'' ''claims'') \<and>
   (\<exists>claims. fixture_token ''HS256'' ''claims'' =
        jws_sign fixture_wire ''HS256'' claims (VALIDATED_JWT_SECRET fixture_module) \<and>
      iat claims = Some 1000 \<and> exp claims = Some (1000 + span_seconds (Days 7))) \<and>
   generateToken fixture_wire fixture_module 1000 (login_tokenPayload ''42'' (Some ''user'')) =
     Inr (fixture_token ''HS256'' ''claims-login'') \<and>
   (\<exists>claims issued. fixture_token ''HS256'' ''claims-login'' =
        jws_sign fixture_wire ''HS256'' claims (JWT_SECRET fixture_module) \<and>
      iat claims = Some issued \<and> exp claims = Some (issued + span_seconds (Hours 24)))"
proof -
  have g1: "generateTokenSecure fixture_wire fixture_module 1000 fixture_input =
     Inr (fixture_token ''HS256'' ''claims-user'')"
    by code_simp
  have g2: "generateRefreshToken fixture_wire fixture_module 1000 ''42'' =
     Inr (fixture_token ''HS256'' ''claims'')"
    by code_simp
  have g3: "generateToken fixture_wire fixture_module 1000 (login_tokenPayload ''42'' (Some ''user'')) =
     Inr (fixture_token ''HS256'' ''claims-login'')"
    by code_simp
  from token_lifetimes [where w = fixture_wire and m = fixture_module and now = 1000
         and payload = fixture_input and token = "fixture_token ''HS256'' ''claims-user''"]
       token_lifetimes [where w = fixture_wire and m = fixture_module and now = 1000
         and uid = "''42''" and token = "fixture_token ''HS256'' ''claims''"]
       token_lifetimes [where w = fixture_wire and m = fixture_module and now = 1000
         and legacy_payload = "login_tokenPayload ''42'' (Some ''user'')"
         and token = "fixture_token ''HS256'' ''claims-login''"]
       g1 g2 g3
  show ?thesis by blast
qed

text \<open>
  C8 as stated fails on the legacy signing path: the token of the login flow expires
  86400 seconds (twenty-four hours) after it was issued, and ten times that exceeds the
  refresh TTL of seven days.
\<close>

theorem legacy_lifetime:
  "generateToken fixture_wire fixture_module 1000 (login_tokenPayload ''42'' (Some ''user'')) =
     Inr (jws_sign fixture_wire ''HS256'' fixture_login_claims (JWT_SECRET fixture_module)) \<and>
   iat fixture_login_claims = Some 1000 \<and>
   exp fixture_login_claims = Some (1000 + 86400) \<and>
   \<not> 10 * 86400 \<le> span_seconds (Days 7)"
  by code_simp

subsection \<open>Failure responses\<close>

text \<open>
  C9 (as the code has it). Whatever the request, the interceptor and the role gate return
  a response and throw nothing. A response that is not the wrapped handler's own is a
  failure response with the body \<^verbatim>\<open>{ "error": ..., "message": ... }\<close>: with status 401 and
  the header \<^verbatim>\<open>WWW-Authenticate: Bearer\<close> from the interceptor, and with status 403 and no
  \<^verbatim>\<open>WWW-Authenticate\<close> header from the role gate.
\<close>

theorem failure_responses:
  "(\<exists>resp. outcome (authMiddleware w m now handler request) = Inr resp \<and>
      ((\<exists>areq. handler areq = Inr resp) \<or>
       (status resp = 401 \<and> failure_envelope resp \<and> challenge resp = Some ''Bearer''))) \<and>
   (\<exists>resp. outcome (requireRole w m now roles handler request) = Inr resp \<and>
      ((\<exists>areq. handler areq = Inr resp) \<or>
       (status resp = 401 \<and> failure_envelope resp \<and> challenge resp = Some ''Bearer'') \<or>
       (status resp = 403 \<and> failure_envelope resp \<and> challenge resp = None)))"
proof -
  from authMiddleware_total [of w m now "roleMiddleware roles handler" request]
  obtain resp where
    o: "outcome (requireRole w m now roles handler request) = Inr resp"
    and d: "(\<exists>areq. roleMiddleware roles handler areq = Inr resp) \<or>
      (status resp = 401 \<and> failure_envelope resp \<and> challenge resp = Some ''Bearer'')"
    unfolding requireRole_def by blast
  have r403: "status (response_403 roles) = 403 \<and> failure_envelope (response_403 roles) \<and>
      challenge (response_403 roles) = None"
    by (simp add: response_403_def failure_envelope_def challenge_def)
  have "(\<exists>areq. handler areq = Inr resp) \<or>
       (status resp = 401 \<and> failure_envelope resp \<and> challenge resp = Some ''Bearer'') \<or>
       (status resp = 403 \<and> failure_envelope resp \<and> challenge resp = None)"
    using d r403 by (auto simp: roleMiddleware_def split: if_splits)
  with o authMiddleware_total [of w m now handler request] show ?thesis by blast
qed

theorem failure_responses_witness:
  "(\<exists>resp. outcome (authMiddleware fixture_wire fixture_module 1500 failing_handler
        (header_request (Some ''Token abc''))) = Inr resp \<and>
      ((\<exists>areq. failing_handler areq = Inr resp) \<or>
       (status resp = 401 \<and> failure_envelope resp \<and> challenge resp = Some ''Bearer''))) \<and>
   (\<exists>resp. outcome (requireRole fixture_wire fixture_module 1500 [''admin''] failing_handler
        (header_request (Some ''Token abc''))) = Inr resp \<and>
      ((\<exists>areq. failing_handler areq = Inr resp) \<or>
       (status resp = 401 \<and> failure_envelope resp \<and> challenge resp = Some ''Bearer'') \<or>
       (status resp = 403 \<and> failure_envelope resp \<and> challenge resp = None)))"
  by (rule failure_responses)

text \<open>
  C9 as stated fails for the role gate: its response with status 403 has the failure
  envelope, and no \<^verbatim>\<open>WWW-Authenticate\<close> header.
\<close>

theorem forbidden_without_challenge:
  "outcome (requireRole fixture_wire fixture_module 1500 [''admin''] profile_handler
      (fixture_request (fixture_token ''HS256'' ''claims-user''))) =
     Inr \<lparr>status = 403, headers = [(''Content-Type'', ''application/json'')],
          body = JSON_stringify [(''error'', ''Insufficient permissions''),
                   (''message'', ''Access denied. Required roles: admin'')]\<rparr> \<and>
   challenge \<lparr>status = 403, headers = [(''Content-Type'', ''application/json'')],
          body = JSON_stringify [(''error'', ''Insufficient permissions''),
                   (''message'', ''Access denied. Required roles: admin'')]\<rparr> = None"
  by code_simp

subsection \<open>The email claim\<close>

text \<open>
  C10. The hardened verifier requires an email claim. For every token whose claims lack
  \<^verbatim>\<open>email\<close>, \<^verbatim>\<open>verifyTokenSecure\<close> returns an error and never claims; when the library's
  checks (signature, algorithm, expiry, audience, issuer) all pass, the error is the
  invalid-payload error; and the interceptor answers a request that bears such a token
  with a failure response of status 401. The token of the login flow is the serialisation
  of claims with the user's id and role and without \<^verbatim>\<open>email\<close>.
\<close>

theorem email_required:
  assumes "carries w token claims" and "email claims = None"
  shows "(\<exists>msg. verifyTokenSecure w m now token = Inl (Error ''Error'' msg)) \<and>
         (jwt_verify w token (VALIDATED_JWT_SECRET m) secure_verify_options now = Inr claims \<and>
          10 \<le> length token \<longrightarrow>
            verifyTokenSecure w m now token =
              Inl (Error ''Error'' ''Invalid token payload: missing required fields'')) \<and>
         (authorization request = Some (''Bearer '' @ token) \<longrightarrow>
            (\<exists>resp. outcome (authMiddleware w m now handler request) = Inr resp \<and>
               status resp = 401 \<and> failure_envelope resp)) \<and>
         (login_token w m now user_id user_role = Inr token \<longrightarrow>
            (\<exists>signed. token = jws_sign w ''HS256'' signed (JWT_SECRET m) \<and>
               userId signed = Some user_id \<and> role signed = user_role \<and> email signed = None))"
proof -
  have rej: "\<exists>msg. verifyTokenSecure w m now token = Inl (Error ''Error'' msg)"
  proof (cases "verifyTokenSecure w m now token")
    case (Inl e)
    then show ?thesis using verifyTokenSecure_Inl by blast
  next
    case (Inr c)
    then have "carries w token c" "\<not> falsy (email c)"
      by (auto simp: verifyTokenSecure_Inr dest: jwt_verify_carries)
    with assms have False using carries_unique [of w token c claims] by (simp add: falsy_def)
    then show ?thesis ..
  qed
  have inv: "verifyTokenSecure w m now token =
              Inl (Error ''Error'' ''Invalid token payload: missing required fields'')"
    if "jwt_verify w token (VALIDATED_JWT_SECRET m) secure_verify_options now = Inr claims"
      "10 \<le> length token"
    using that assms(2) by (auto simp: verifyTokenSecure_def falsy_def)
  have mw: "\<exists>resp. outcome (authMiddleware w m now handler request) = Inr resp \<and>
               status resp = 401 \<and> failure_envelope resp"
    if h: "authorization request = Some (''Bearer '' @ token)"
  proof (cases "10 \<le> length token")
    case True
    from rej obtain msg where "verifyTokenSecure w m now token = Inl (Error ''Error'' msg)" ..
    then show ?thesis
      by (simp add: authMiddleware_bearer [OF h True] status_on_catch on_catch_shape)
  next
    case False
    then show ?thesis
      unfolding authMiddleware_def using h bearer_prefix [of token]
      by (auto simp: Let_def response_401_def failure_envelope_def simp del: startsWith.simps)
  qed
  have lg: "\<exists>signed. token = jws_sign w ''HS256'' signed (JWT_SECRET m) \<and>
               userId signed = Some user_id \<and> role signed = user_role \<and> email signed = None"
    if "login_token w m now user_id user_role = Inr token"
  proof -
    from that have "jwt_sign w (login_tokenPayload user_id user_role) (JWT_SECRET m)
        legacy_sign_options now = Inr token"
      by (simp add: login_token_def generateToken_def)
    from jwt_sign_Inr [OF this] obtain signed where
      c: "sign_claims (login_tokenPayload user_id user_role) legacy_sign_options now = Inr signed"
      and t: "token = jws_sign w ''HS256'' signed (JWT_SECRET m)"
      by (auto simp: legacy_sign_options_def no_options_def)
    from c have "userId signed = Some user_id \<and> role signed = user_role \<and> email signed = None"
      by (auto simp: sign_claims_def login_tokenPayload_def legacy_sign_options_def
            no_options_def no_claims_def Let_def)
    with t show ?thesis by blast
  qed
  show ?thesis using rej inv mw lg by blast
qed

theorem email_required_witness:
  "carries fixture_wire (fixture_token ''HS256'' ''claims-no-email'')
     (fixture_claims None (Some ''user'')) \<and>
   email (fixture_claims None (Some ''user'')) = None \<and>
   jwt_verify fixture_wire (fixture_token ''HS256'' ''claims-no-email'')
     (VALIDATED_JWT_SECRET fixture_module) secure_verify_options 1500 =
     Inr (fixture_claims None (Some ''user'')) \<and>
   10 \<le> length (fixture_token ''HS256'' ''claims-no-email'') \<and>
   verifyTokenSecure fixture_wire fixture_module 1500 (fixture_token ''HS256'' ''claims-no-email'') =
     Inl (Error ''Error'' ''Invalid token payload: missing required fields'') \<and>
   authorization (fixture_request (fixture_token ''HS256'' ''claims-no-email'')) =
     Some (''Bearer '' @ fixture_token ''HS256'' ''claims-no-email'') \<and>
   (\<exists>resp. outcome (authMiddleware fixture_wire fixture_module 1500 profile_handler
        (fixture_request (fixture_token ''HS256'' ''claims-no-email''))) = Inr resp \<and>
      status resp = 401 \<and> failure_envelope resp) \<and>
   carries fixture_wire (fixture_token ''HS256'' ''claims-login'') fixture_login_claims \<and>
   email fixture_login_claims = None \<and>
   login_token fixture_wire fixture_module 1000 ''42'' (Some ''user'') =
     Inr (fixture_token ''HS256'' ''claims-login'') \<and>
   (\<exists>msg. verifyTokenSecure fixture_wire fixture_module 1500 (fixture_token ''HS256'' ''claims-login'') =
      Inl (Error ''Error'' msg)) \<and>
   (\<exists>signed. fixture_token ''HS256'' ''claims-login'' =
        jws_sign fixture_wire ''HS256'' signed (JWT_SECRET fixture_module) \<and>
      userId signed = Some ''42'' \<and> role signed = Some ''user'' \<and> email signed = None)"
proof -
  have a1: "carries fixture_wire (fixture_token ''HS256'' ''claims-no-email'')
     (fixture_claims None (Some ''user''))"
    by code_simp
  have a2: "email (fixture_claims None (Some ''user'')) = None"
    by (simp add: fixture_claims_def)
  have a3: "jwt_verify fixture_wire (fixture_token ''HS256'' ''claims-no-email'')
     (VALIDATED_JWT_SECRET fixture_module) secure_verify_options 1500 =
     Inr (fixture_claims None (Some ''user''))"
    by code_simp
  have a4: "10 \<le> length (fixture_token ''HS256'' ''claims-no-email'')"
    by code_simp
  have b1: "carries fixture_wire (fixture_token ''HS256'' ''claims-login'') fixture_login_claims"
    by code_simp
  have b2: "email fixture_login_claims = None"
    by (simp add: fixture_login_claims_def)
  have b3: "login_token fixture_wire fixture_module 1000 ''42'' (Some ''user'') =
     Inr (fixture_token ''HS256'' ''claims-login'')"
    by code_simp
  from email_required [OF a1 a2, where m = fixture_module and now = 1500
         and request = "fixture_request (fixture_token ''HS256'' ''claims-no-email'')"
         and handler = profile_handler]
       email_required [OF b1 b2, where m = fixture_module and now = 1500]
       email_required [OF b1 b2, where m = fixture_module and now = 1000
         and user_id = "''42''" and user_role = "Some ''user''"]
       a1 a2 a3 a4 b1 b2 b3 fixture_bearer [of "fixture_token ''HS256'' ''claims-no-email''"]
  show ?thesis by blast
qed

end
